theory Spec2Isabelle
  imports Main "HOL-Library.Word" "HOL-Library.Multiset"
begin

section \<open>The VDA frame queue of libavcodec/vda.c\<close>

text \<open>
  The file keeps the frames that the hardware decoder hands back in a singly linked
  chain of \<open>vda_frame\<close> records, ordered by presentation timestamp. The chain that
  starts at \<open>vda_ctx->queue\<close> and follows \<open>next_frame\<close> until \<open>NULL\<close> is modelled
  as the list of its records, head first; a \<open>NULL\<close> pointer is \<open>None\<close>.
  Calls into the platform (pthread, CoreVideo, the VDA decoder) are written to a log,
  oldest call first, so that a theorem can say which of them a function made. Where the
  file uses a result of the platform (a status, an allocated pointer), the result is an
  argument of the modelled function. The callback, the pop and the clearing of the
  queue are modelled for a session whose mutex exists; \<open>ff_vda_destroy_decoder\<close>,
  which tests the mutex for \<open>NULL\<close> itself, is modelled for a \<open>NULL\<close> mutex
  too. Freeing memory and the reference counts of
  CoreFoundation values (\<open>av_freep\<close>, \<open>CFRelease\<close>) are left out.
\<close>

subsection \<open>Data\<close>

type_synonym OSStatus = "32 word"
type_synonym VDADecoder = nat

text \<open>
  A decoded image as far as this file looks at it: its identity and what
  \<open>CVPixelBufferGetPixelFormatType\<close> answers for it.
\<close>

record CVImageBuffer =
  buffer_id :: nat
  pixel_format_type :: "32 word"

text \<open>
  The \<open>user_info\<close> dictionary: string keys, and the 64-bit number that
  \<open>CFNumberGetValue\<close> reads from a value with \<open>kCFNumberSInt64Type\<close>.
\<close>

type_synonym CFDictionary = "string \<rightharpoonup> 64 word"

record vda_frame =
  cv_buffer :: "CVImageBuffer option"
  pts :: "64 word"

record vda_context =
  decoder :: "VDADecoder option"
  queue :: "vda_frame list"
  queue_mutex :: "nat option"
  width :: "32 word"
  height :: "32 word"
  format :: "32 word"

text \<open>
  The two constants of the platform headers that the modelled functions compare with.
  The headers are not part of the repository, so the constants are parameters.
\<close>

record vda_platform =
  kVDADecoderNoErr :: OSStatus
  kCVPixelFormatType_422YpCbCr8 :: "32 word"

datatype AVLockOp = AV_LOCK_CREATE | AV_LOCK_OBTAIN | AV_LOCK_RELEASE | AV_LOCK_DESTROY

datatype platform_call =
    Pthread_mutex_init "nat option"
  | Pthread_mutex_lock "nat option"
  | Pthread_mutex_unlock "nat option"
  | Pthread_mutex_destroy "nat option"
  | CVPixelBufferRetain CVImageBuffer
  | CVPixelBufferRelease "CVImageBuffer option"
  | VDADecoderDestroy VDADecoder
  | VDADecoderDecode "VDADecoder option" "8 word list" CFDictionary

record vda_machine =
  vda_ctx :: vda_context
  calls :: "platform_call list"

text \<open>
  The faults the modelled code can run into, after which a call does not return: writing
  through a \<open>NULL\<close> pointer, and handing a \<open>NULL\<close> mutex to
  \<open>pthread_mutex_lock\<close>.
\<close>

datatype vda_fault = Null_Pointer_Write | Null_Mutex_Lock

subsection \<open>Helpers of the model\<close>

definition platform :: "platform_call \<Rightarrow> vda_machine \<Rightarrow> vda_machine" where
  "platform c m = m\<lparr>calls := calls m @ [c]\<rparr>"

definition set_queue :: "vda_frame list \<Rightarrow> vda_machine \<Rightarrow> vda_machine" where
  "set_queue q m = m\<lparr>vda_ctx := (vda_ctx m)\<lparr>queue := q\<rparr>\<rparr>"

definition set_queue_mutex :: "nat option \<Rightarrow> vda_machine \<Rightarrow> vda_machine" where
  "set_queue_mutex p m = m\<lparr>vda_ctx := (vda_ctx m)\<lparr>queue_mutex := p\<rparr>\<rparr>"

text \<open>
  \<open>int64_t\<close> and \<open>int\<close> values are words read by \<open>sint\<close>. The timestamp of
  a frame as the signed number that C's \<open><\<close> compares:
\<close>

definition signed_pts :: "vda_frame \<Rightarrow> int" where
  "signed_pts f = sint (pts f)"

subsection \<open>The functions of vda.c\<close>

text \<open>
  \<open>vda_lock_operation\<close> on \<open>&vda_ctx->queue_mutex\<close>. Its first argument is what
  \<open>av_malloc\<close> returns when \<open>AV_LOCK_CREATE\<close> asks for the mutex; the other
  operations allocate nothing and ignore it. Every caller in the file discards the
  returned status, which is therefore not modelled.
\<close>

fun vda_lock_operation :: "nat option \<Rightarrow> AVLockOp \<Rightarrow> vda_machine \<Rightarrow> vda_machine" where
  "vda_lock_operation a AV_LOCK_CREATE m =
     (case a of
        None \<Rightarrow> set_queue_mutex None m
      | Some p \<Rightarrow> platform (Pthread_mutex_init (Some p)) (set_queue_mutex (Some p) m))"
| "vda_lock_operation a AV_LOCK_OBTAIN m =
     platform (Pthread_mutex_lock (queue_mutex (vda_ctx m))) m"
| "vda_lock_operation a AV_LOCK_RELEASE m =
     platform (Pthread_mutex_unlock (queue_mutex (vda_ctx m))) m"
| "vda_lock_operation a AV_LOCK_DESTROY m =
     set_queue_mutex None (platform (Pthread_mutex_destroy (queue_mutex (vda_ctx m))) m)"

definition FF_VDA_DECODER_PTS_KEY :: string where
  "FF_VDA_DECODER_PTS_KEY = ''FF_VDA_DECODER_PTS_KEY''"

definition vda_dictionary_with_pts :: "64 word \<Rightarrow> CFDictionary" where
  "vda_dictionary_with_pts i_pts = [FF_VDA_DECODER_PTS_KEY \<mapsto> i_pts]"

definition vda_pts_from_dictionary :: "CFDictionary option \<Rightarrow> 64 word" where
  "vda_pts_from_dictionary user_info =
     (case user_info of
        None \<Rightarrow> 0
      | Some d \<Rightarrow>
          (case d FF_VDA_DECODER_PTS_KEY of
             None \<Rightarrow> 0
           | Some outValue \<Rightarrow> outValue))"

definition ff_vda_release_vda_frame :: "vda_frame option \<Rightarrow> vda_machine \<Rightarrow> vda_machine" where
  "ff_vda_release_vda_frame frame m =
     (case frame of
        None \<Rightarrow> m
      | Some f \<Rightarrow> platform (CVPixelBufferRelease (cv_buffer f)) m)"

text \<open>The \<open>while\<close> loop of \<open>vda_clear_queue\<close>, one record a turn.\<close>

function clear_queue_loop :: "vda_machine \<Rightarrow> vda_machine" where
  "clear_queue_loop m =
     (case queue (vda_ctx m) of
        [] \<Rightarrow> m
      | top_frame # next_frame \<Rightarrow>
          clear_queue_loop (ff_vda_release_vda_frame (Some top_frame) (set_queue next_frame m)))"
  by pat_completeness auto
termination
  by (relation "measure (\<lambda>m. length (queue (vda_ctx m)))")
     (auto simp: ff_vda_release_vda_frame_def platform_def set_queue_def)

declare clear_queue_loop.simps [simp del]

definition vda_clear_queue :: "vda_machine \<Rightarrow> vda_machine" where
  "vda_clear_queue m =
     vda_lock_operation None AV_LOCK_RELEASE
       (clear_queue_loop (vda_lock_operation None AV_LOCK_OBTAIN m))"

text \<open>
  The \<open>while (1)\<close> walk of \<open>vda_decoder_callback\<close>: \<open>queue_walker\<close> is a record of
  the chain, the list is the chain behind it. The result is the chain from
  \<open>queue_walker\<close> on, with \<open>new_frame\<close> linked in.
\<close>

fun queue_walk :: "vda_frame \<Rightarrow> vda_frame \<Rightarrow> vda_frame list \<Rightarrow> vda_frame list" where
  "queue_walk new_frame queue_walker [] = [queue_walker, new_frame]"
| "queue_walk new_frame queue_walker (next_frame # rest) =
     (if signed_pts new_frame < signed_pts next_frame
      then queue_walker # new_frame # next_frame # rest
      else queue_walker # queue_walk new_frame next_frame rest)"

definition link_frame :: "vda_frame \<Rightarrow> vda_frame list \<Rightarrow> vda_frame list" where
  "link_frame new_frame q =
     (case q of
        [] \<Rightarrow> [new_frame]
      | queue_walker # rest \<Rightarrow>
          if signed_pts new_frame < signed_pts queue_walker
          then new_frame # queue_walker # rest
          else queue_walk new_frame queue_walker rest)"

text \<open>
  \<open>vda_decoder_callback\<close>. \<open>allocated\<close> says whether \<open>av_mallocz\<close> returned a
  record; the code writes \<open>new_frame->next_frame\<close> without looking at the pointer.
  \<open>CVPixelBufferRetain\<close> returns the buffer it is given. \<open>link_frame\<close> is the
  part of the function between taking and releasing the mutex.
\<close>

definition vda_decoder_callback ::
  "vda_platform \<Rightarrow> bool \<Rightarrow> vda_machine \<Rightarrow> CFDictionary option \<Rightarrow> OSStatus \<Rightarrow> 32 word \<Rightarrow>
   CVImageBuffer option \<Rightarrow> vda_fault + vda_machine" where
  "vda_decoder_callback P allocated m user_info status infoFlags image_buffer =
     (case image_buffer of
        None \<Rightarrow> Inr m
      | Some buf \<Rightarrow>
          if kCVPixelFormatType_422YpCbCr8 P \<noteq> pixel_format_type buf then Inr m
          else if \<not> allocated then Inl Null_Pointer_Write
          else
            let m1 = platform (CVPixelBufferRetain buf) m;
                new_frame = \<lparr>cv_buffer = Some buf, pts = vda_pts_from_dictionary user_info\<rparr>;
                m2 = vda_lock_operation None AV_LOCK_OBTAIN m1;
                m3 = set_queue (link_frame new_frame (queue (vda_ctx m2))) m2
            in Inr (vda_lock_operation None AV_LOCK_RELEASE m3))"

text \<open>
  \<open>ff_vda_destroy_decoder\<close>. \<open>destroy_status\<close> is what \<open>VDADecoderDestroy\<close>
  returns when it is called. The function tests \<open>queue_mutex\<close> for \<open>NULL\<close>
  only after its call of \<open>vda_clear_queue\<close>, whose first statement hands the mutex
  to \<open>pthread_mutex_lock\<close>. With a \<open>NULL\<close> mutex that call does not return:
  the function ends there, with the queue as it was and no status.
\<close>

definition ff_vda_destroy_decoder ::
  "vda_platform \<Rightarrow> OSStatus \<Rightarrow> vda_machine \<Rightarrow> vda_fault + (32 word \<times> vda_machine)" where
  "ff_vda_destroy_decoder P destroy_status m =
     (let (status, m1) =
            (case decoder (vda_ctx m) of
               None \<Rightarrow> (kVDADecoderNoErr P, m)
             | Some d \<Rightarrow> (destroy_status, platform (VDADecoderDestroy d) m))
      in if queue_mutex (vda_ctx m1) = None then Inl Null_Mutex_Lock
         else
           let m2 = vda_clear_queue m1;
               m3 = (if queue_mutex (vda_ctx m2) \<noteq> None
                     then vda_lock_operation None AV_LOCK_DESTROY m2 else m2)
           in Inr (if kVDADecoderNoErr P \<noteq> status then status else 0, m3))"

definition ff_vda_queue_pop :: "vda_machine \<Rightarrow> vda_frame option \<times> vda_machine" where
  "ff_vda_queue_pop m =
     (case queue (vda_ctx m) of
        [] \<Rightarrow> (None, m)
      | top_frame # next_frame \<Rightarrow>
          (Some top_frame,
           vda_lock_operation None AV_LOCK_RELEASE
             (set_queue next_frame (vda_lock_operation None AV_LOCK_OBTAIN m))))"

text \<open>
  \<open>ff_vda_decoder_decode\<close>. The pointer and size of the bitstream are the byte list
  that \<open>CFDataCreate\<close> copies; \<open>decode_status\<close> is what \<open>VDADecoderDecode\<close> returns.
  The CoreFoundation constructors are taken to return their values; the code does not
  test them.
\<close>

definition ff_vda_decoder_decode ::
  "vda_platform \<Rightarrow> OSStatus \<Rightarrow> vda_machine \<Rightarrow> 8 word list \<Rightarrow> 64 word \<Rightarrow>
   32 word \<times> vda_machine" where
  "ff_vda_decoder_decode P decode_status m bitstream frame_pts =
     (let coded_frame = bitstream;
          user_info = vda_dictionary_with_pts frame_pts;
          status = decode_status;
          m1 = platform (VDADecoderDecode (decoder (vda_ctx m)) coded_frame user_info) m
      in (if kVDADecoderNoErr P \<noteq> status then status else 0, m1))"

subsection \<open>Sequences of calls\<close>

text \<open>
  What reaches the queue of one session: the decoder's callback, with the outcome of its
  \<open>av_mallocz\<close>, and the consumer's \<open>ff_vda_queue_pop\<close>. The mutex serialises the
  calls, so a history is a list of them. A fault ends the run.
\<close>

datatype queue_call =
    Frame_Ready bool "CFDictionary option" OSStatus "32 word" "CVImageBuffer option"
  | Queue_Pop

fun run_calls :: "vda_platform \<Rightarrow> queue_call list \<Rightarrow> vda_machine \<Rightarrow> vda_fault + vda_machine" where
  "run_calls P [] m = Inr m"
| "run_calls P (Frame_Ready allocated user_info status infoFlags image_buffer # cs) m =
     (case vda_decoder_callback P allocated m user_info status infoFlags image_buffer of
        Inl e \<Rightarrow> Inl e
      | Inr m' \<Rightarrow> run_calls P cs m')"
| "run_calls P (Queue_Pop # cs) m = run_calls P cs (snd (ff_vda_queue_pop m))"

fun allocation_succeeds :: "queue_call \<Rightarrow> bool" where
  "allocation_succeeds (Frame_Ready allocated user_info status infoFlags image_buffer) = allocated"
| "allocation_succeeds Queue_Pop = True"

text \<open>The consumer calling \<open>ff_vda_queue_pop\<close> until it returns \<open>NULL\<close>.\<close>

function pop_until_empty :: "vda_machine \<Rightarrow> vda_frame list" where
  "pop_until_empty m =
     (case ff_vda_queue_pop m of
        (None, m') \<Rightarrow> []
      | (Some top_frame, m') \<Rightarrow> top_frame # pop_until_empty m')"
  by pat_completeness auto
termination
  by (relation "measure (\<lambda>m. length (queue (vda_ctx m)))")
     (auto simp: ff_vda_queue_pop_def platform_def set_queue_def split: list.splits)

declare pop_until_empty.simps [simp del]

text \<open>
  The callback as \<open>VDADecoderDecode\<close> causes it for a submission with timestamp
  \<open>t\<close>: the token is the dictionary that \<open>ff_vda_decoder_decode\<close> built, the image
  has the pixel format the callback accepts, and the record is allocated.
\<close>

definition decoded_image :: "vda_platform \<Rightarrow> nat \<Rightarrow> CVImageBuffer" where
  "decoded_image P b = \<lparr>buffer_id = b, pixel_format_type = kCVPixelFormatType_422YpCbCr8 P\<rparr>"

definition decoded_frame :: "vda_platform \<Rightarrow> 64 word \<times> nat \<Rightarrow> vda_frame" where
  "decoded_frame P x = \<lparr>cv_buffer = Some (decoded_image P (snd x)), pts = fst x\<rparr>"

definition frame_decoded :: "vda_platform \<Rightarrow> 64 word \<times> nat \<Rightarrow> queue_call" where
  "frame_decoded P x =
     Frame_Ready True (Some (vda_dictionary_with_pts (fst x))) (kVDADecoderNoErr P) 0
       (Some (decoded_image P (snd x)))"

subsection \<open>Concrete values\<close>

text \<open>
  A platform with the values of Apple's headers (\<open>kVDADecoderNoErr\<close> is 0, the
  pixel format is the four-character code \<open>2vuy\<close>) and a created session for H.264
  (\<open>avc1\<close>) with an empty queue.
\<close>

definition example_platform :: vda_platform where
  "example_platform = \<lparr>kVDADecoderNoErr = 0, kCVPixelFormatType_422YpCbCr8 = 0x32767579\<rparr>"

definition example_session :: vda_machine where
  "example_session =
     \<lparr>vda_ctx = \<lparr>decoder = Some 1, queue = [], queue_mutex = Some 2,
                 width = 640, height = 480, format = 0x61766331\<rparr>,
      calls = []\<rparr>"

definition example_history :: "queue_call list" where
  "example_history =
     [frame_decoded example_platform (100, 1),
      frame_decoded example_platform (50, 2),
      Queue_Pop,
      frame_decoded example_platform (75, 3)]"

text \<open>The same session with three frames waiting, in the order of their timestamps.\<close>

definition ordered_session :: vda_machine where
  "ordered_session =
     \<lparr>vda_ctx = \<lparr>decoder = Some 1,
                 queue = [decoded_frame example_platform (3, 1),
                          decoded_frame example_platform (5, 2),
                          decoded_frame example_platform (7, 3)],
                 queue_mutex = Some 2,
                 width = 640, height = 480, format = 0x61766331\<rparr>,
      calls = []\<rparr>"

text \<open>An image whose pixel format is the session's own \<open>format\<close>.\<close>

definition avc1_image :: CVImageBuffer where
  "avc1_image = \<lparr>buffer_id = 9, pixel_format_type = 0x61766331\<rparr>"

text \<open>
  A context on which \<open>ff_vda_create_decoder\<close> has not made the mutex (it returns
  before \<open>AV_LOCK_CREATE\<close> when \<open>av_lockmgr_register\<close> fails, and
  \<open>AV_LOCK_CREATE\<close> leaves the pointer \<open>NULL\<close> when \<open>av_malloc\<close> fails):
  no decoder handle, no mutex, nothing queued.
\<close>

definition uncreated_session :: vda_machine where
  "uncreated_session =
     \<lparr>vda_ctx = \<lparr>decoder = None, queue = [], queue_mutex = None,
                 width = 640, height = 480, format = 0x61766331\<rparr>,
      calls = []\<rparr>"

section \<open>Properties\<close>

subsection \<open>Where the callback links a record\<close>

lemma queue_walk_eq:
  "queue_walk f w rest =
     w # takeWhile (\<lambda>g. signed_pts g \<le> signed_pts f) rest @
         f # dropWhile (\<lambda>g. signed_pts g \<le> signed_pts f) rest"
  by (induction rest arbitrary: w) auto

lemma link_frame_eq:
  "link_frame f q =
     takeWhile (\<lambda>g. signed_pts g \<le> signed_pts f) q @
       f # dropWhile (\<lambda>g. signed_pts g \<le> signed_pts f) q"
  by (cases q) (auto simp: link_frame_def queue_walk_eq)

lemma mset_link_frame: "mset (link_frame f q) = add_mset f (mset q)"
proof -
  let ?P = "\<lambda>g. signed_pts g \<le> signed_pts f"
  have "mset (takeWhile ?P q) + mset (dropWhile ?P q) = mset (takeWhile ?P q @ dropWhile ?P q)"
    by (simp only: mset_append)
  then show ?thesis
    by (simp add: link_frame_eq)
qed

lemma length_link_frame: "length (link_frame f q) = Suc (length q)"
  using arg_cong [OF mset_link_frame [of f q], of size] by simp

lemma set_link_frame: "set (link_frame f q) = insert f (set q)"
  using arg_cong [OF mset_link_frame [of f q], of set_mset] by simp

lemma takeWhile_le_sorted:
  "sorted (map key q) \<Longrightarrow> takeWhile (\<lambda>g. key g \<le> (k::int)) q = filter (\<lambda>g. key g \<le> k) q"
proof (induction q)
  case Nil
  then show ?case by simp
next
  case (Cons a q)
  show ?case
  proof (cases "key a \<le> k")
    case True
    with Cons show ?thesis by simp
  next
    case False
    with Cons.prems have "\<forall>g\<in>set q. \<not> key g \<le> k" by auto
    then have "filter (\<lambda>g. key g \<le> k) q = []" by (simp add: filter_empty_conv)
    with False show ?thesis by simp
  qed
qed

lemma dropWhile_le_sorted:
  "sorted (map key q) \<Longrightarrow> dropWhile (\<lambda>g. key g \<le> (k::int)) q = filter (\<lambda>g. k < key g) q"
proof (induction q)
  case Nil
  then show ?case by simp
next
  case (Cons a q)
  show ?case
  proof (cases "key a \<le> k")
    case True
    with Cons show ?thesis by simp
  next
    case False
    with Cons.prems have "\<forall>g\<in>set q. k < key g" by auto
    then have "filter (\<lambda>g. k < key g) q = q" by simp
    with False show ?thesis by simp
  qed
qed

lemma link_frame_sorted_eq:
  "sorted (map signed_pts q) \<Longrightarrow>
   link_frame f q =
     filter (\<lambda>g. signed_pts g \<le> signed_pts f) q @ f # filter (\<lambda>g. signed_pts f < signed_pts g) q"
  by (simp add: link_frame_eq takeWhile_le_sorted dropWhile_le_sorted)

lemma sorted_link_frame:
  assumes "sorted (map signed_pts q)"
  shows "sorted (map signed_pts (link_frame f q))"
proof -
  have "sorted (map signed_pts (filter (\<lambda>g. signed_pts g \<le> signed_pts f) q))"
    and "sorted (map signed_pts (filter (\<lambda>g. signed_pts f < signed_pts g) q))"
    using assms by (simp_all add: sorted_filter)
  then show ?thesis
    unfolding link_frame_sorted_eq [OF assms]
    by (auto simp: sorted_append)
qed

subsection \<open>Popping\<close>

lemma pop_until_empty_eq: "pop_until_empty m = queue (vda_ctx m)"
proof (induction "queue (vda_ctx m)" arbitrary: m)
  case Nil
  then show ?case
    by (subst pop_until_empty.simps) (simp add: ff_vda_queue_pop_def flip: Nil)
next
  case (Cons f q)
  let ?m' = "snd (ff_vda_queue_pop m)"
  have q: "queue (vda_ctx ?m') = q"
    by (simp add: ff_vda_queue_pop_def platform_def set_queue_def flip: Cons(2))
  have "pop_until_empty m = f # pop_until_empty ?m'"
    by (subst pop_until_empty.simps) (simp add: ff_vda_queue_pop_def flip: Cons(2))
  with Cons(1) [of ?m'] q show ?case
    using Cons(2) by simp
qed

lemma queue_pop: "queue (vda_ctx (snd (ff_vda_queue_pop m))) = tl (queue (vda_ctx m))"
  by (simp add: ff_vda_queue_pop_def platform_def set_queue_def split: list.splits)

subsection \<open>The order of the queue is kept by every call\<close>

lemma callback_cases:
  "allocated \<Longrightarrow>
   \<exists>m'. vda_decoder_callback P allocated m user_info status infoFlags image_buffer = Inr m' \<and>
     (queue (vda_ctx m') = queue (vda_ctx m) \<or>
      (\<exists>f. queue (vda_ctx m') = link_frame f (queue (vda_ctx m))))"
  by (auto simp: vda_decoder_callback_def Let_def platform_def set_queue_def split: option.splits)

lemma run_calls_sorted:
  "list_all allocation_succeeds cs \<Longrightarrow> sorted (map signed_pts (queue (vda_ctx m))) \<Longrightarrow>
   \<exists>m'. run_calls P cs m = Inr m' \<and> sorted (map signed_pts (queue (vda_ctx m')))"
proof (induction cs arbitrary: m)
  case Nil
  then show ?case by simp
next
  case (Cons c cs)
  show ?case
  proof (cases c)
    case (Frame_Ready a u s i b)
    with Cons.prems have a by simp
    from callback_cases [OF this, of P m u s i b]
    obtain m1 where m1: "vda_decoder_callback P a m u s i b = Inr m1"
      and q: "queue (vda_ctx m1) = queue (vda_ctx m) \<or>
          (\<exists>f. queue (vda_ctx m1) = link_frame f (queue (vda_ctx m)))"
      by blast
    from q Cons.prems(2) have "sorted (map signed_pts (queue (vda_ctx m1)))"
      by (auto simp: sorted_link_frame)
    with Cons.IH [of m1] Cons.prems(1) m1 Frame_Ready show ?thesis
      by simp
  next
    case Queue_Pop
    have "sorted (map signed_pts (queue (vda_ctx (snd (ff_vda_queue_pop m)))))"
      using Cons.prems(2) by (simp add: queue_pop map_tl sorted_tl)
    with Cons.IH [of "snd (ff_vda_queue_pop m)"] Cons.prems(1) Queue_Pop show ?thesis
      by simp
  qed
qed

lemma list_all_take: "list_all Q xs \<Longrightarrow> list_all Q (take n xs)"
  by (auto simp: list_all_iff dest: in_set_takeD)

text \<open>
  C1. Start from an empty queue and let the decoder's callback (every allocation
  succeeding) and \<open>ff_vda_queue_pop\<close> be called in any order. After any number
  \<open>n\<close> of these calls, the timestamps that \<open>ff_vda_queue_pop\<close> returns when it is
  called until it answers \<open>NULL\<close> never decrease.
\<close>

theorem pop_order_never_decreases:
  assumes "queue (vda_ctx m) = []"
    and "list_all allocation_succeeds cs"
  shows "\<exists>m'. run_calls P (take n cs) m = Inr m' \<and>
           sorted (map signed_pts (pop_until_empty m'))"
proof -
  have "list_all allocation_succeeds (take n cs)"
    using assms(2) by (rule list_all_take)
  moreover have "sorted (map signed_pts (queue (vda_ctx m)))"
    using assms(1) by simp
  ultimately show ?thesis
    using run_calls_sorted [of "take n cs" m P] by (simp add: pop_until_empty_eq)
qed

theorem pop_order_never_decreases_witness:
  "queue (vda_ctx example_session) = [] \<and> list_all allocation_succeeds example_history \<and>
   (\<exists>m'. run_calls example_platform (take 4 example_history) example_session = Inr m' \<and>
           sorted (map signed_pts (pop_until_empty m')))"
proof -
  have e: "queue (vda_ctx example_session) = []"
    by (simp add: example_session_def)
  have a: "list_all allocation_succeeds example_history"
    by (simp add: example_history_def frame_decoded_def)
  show ?thesis
    using e a pop_order_never_decreases [OF e a, of example_platform 4] by simp
qed

subsection \<open>Equal timestamps and the head of the queue\<close>

lemma signed_pts_eq_iff: "signed_pts g = signed_pts f \<longleftrightarrow> pts g = pts f"
  by (simp add: signed_pts_def word_eq_iff_signed [where ?'a = int])

lemma filter_link_frame:
  assumes "sorted (map signed_pts q)"
  shows "filter (\<lambda>g. signed_pts g = k) (link_frame f q) =
         filter (\<lambda>g. signed_pts g = k) q @ (if signed_pts f = k then [f] else [])"
proof (cases "signed_pts f = k")
  case True
  have "filter (\<lambda>g. signed_pts g = k) (filter (\<lambda>g. signed_pts g \<le> signed_pts f) q) =
        filter (\<lambda>g. signed_pts g = k) q"
    unfolding filter_filter using True by (intro filter_cong) auto
  moreover have "filter (\<lambda>g. signed_pts g = k) (filter (\<lambda>g. signed_pts f < signed_pts g) q) = []"
    unfolding filter_filter using True by (intro filter_False) auto
  ultimately show ?thesis
    using True by (simp only: link_frame_sorted_eq [OF assms] filter_append filter.simps if_True append_Nil2)
next
  case False
  let ?P = "\<lambda>g. signed_pts g \<le> signed_pts f"
  let ?Q = "\<lambda>g. signed_pts g = k"
  have "filter ?Q (link_frame f q) = filter ?Q (takeWhile ?P q) @ filter ?Q (dropWhile ?P q)"
    using False by (simp add: link_frame_eq)
  also have "\<dots> = filter ?Q (takeWhile ?P q @ dropWhile ?P q)"
    by (simp only: filter_append)
  finally show ?thesis
    using False by simp
qed

lemma callback_links:
  assumes "pixel_format_type buf = kCVPixelFormatType_422YpCbCr8 P"
  shows "\<exists>m'. vda_decoder_callback P True m user_info status infoFlags (Some buf) = Inr m' \<and>
           queue (vda_ctx m') =
             link_frame \<lparr>cv_buffer = Some buf, pts = vda_pts_from_dictionary user_info\<rparr>
               (queue (vda_ctx m)) \<and>
           calls m' = calls m @ [CVPixelBufferRetain buf,
                                 Pthread_mutex_lock (queue_mutex (vda_ctx m)),
                                 Pthread_mutex_unlock (queue_mutex (vda_ctx m))]"
  using assms by (simp add: vda_decoder_callback_def Let_def platform_def set_queue_def)

text \<open>
  C2. When the queue is in timestamp order, the callback links the new record behind
  every record whose timestamp is less than or equal to its own and in front of every
  record with a greater one. The records that carry the new record's timestamp are then
  popped in the order in which they arrived, the new record last.
\<close>

theorem equal_timestamps_keep_arrival_order:
  assumes "sorted (map signed_pts (queue (vda_ctx m)))"
    and "pixel_format_type buf = kCVPixelFormatType_422YpCbCr8 P"
  shows "let q = queue (vda_ctx m);
             f = \<lparr>cv_buffer = Some buf, pts = vda_pts_from_dictionary user_info\<rparr>
         in \<exists>m'. vda_decoder_callback P True m user_info status infoFlags (Some buf) = Inr m' \<and>
              queue (vda_ctx m') =
                filter (\<lambda>g. signed_pts g \<le> signed_pts f) q @ [f] @
                filter (\<lambda>g. signed_pts f < signed_pts g) q \<and>
              filter (\<lambda>g. pts g = pts f) (pop_until_empty m') =
                filter (\<lambda>g. pts g = pts f) q @ [f]"
proof -
  define f where "f = \<lparr>cv_buffer = Some buf, pts = vda_pts_from_dictionary user_info\<rparr>"
  from callback_links [OF assms(2), of m user_info status infoFlags]
  obtain m' where m': "vda_decoder_callback P True m user_info status infoFlags (Some buf) = Inr m'"
    and q': "queue (vda_ctx m') = link_frame f (queue (vda_ctx m))"
    unfolding f_def by blast
  have "filter (\<lambda>g. signed_pts g = signed_pts f) (queue (vda_ctx m')) =
        filter (\<lambda>g. signed_pts g = signed_pts f) (queue (vda_ctx m)) @ [f]"
    unfolding q' by (simp add: filter_link_frame [OF assms(1)])
  then have "filter (\<lambda>g. pts g = pts f) (pop_until_empty m') =
        filter (\<lambda>g. pts g = pts f) (queue (vda_ctx m)) @ [f]"
    by (simp add: signed_pts_eq_iff pop_until_empty_eq)
  with m' q' show ?thesis
    unfolding Let_def f_def [symmetric]
    by (simp add: link_frame_sorted_eq [OF assms(1)])
qed

theorem equal_timestamps_keep_arrival_order_witness:
  "sorted (map signed_pts (queue (vda_ctx ordered_session))) \<and>
   pixel_format_type (decoded_image example_platform 4) =
     kCVPixelFormatType_422YpCbCr8 example_platform \<and>
   (\<exists>m'. vda_decoder_callback example_platform True ordered_session
            (Some (vda_dictionary_with_pts 5)) 0 0 (Some (decoded_image example_platform 4)) = Inr m' \<and>
      queue (vda_ctx m') =
        [decoded_frame example_platform (3, 1), decoded_frame example_platform (5, 2),
         decoded_frame example_platform (5, 4), decoded_frame example_platform (7, 3)] \<and>
      filter (\<lambda>g. pts g = 5) (pop_until_empty m') =
        [decoded_frame example_platform (5, 2), decoded_frame example_platform (5, 4)])"
proof -
  have s: "sorted (map signed_pts (queue (vda_ctx ordered_session)))"
    by (simp add: ordered_session_def decoded_frame_def signed_pts_def)
  have p: "pixel_format_type (decoded_image example_platform 4) =
     kCVPixelFormatType_422YpCbCr8 example_platform"
    by (simp add: decoded_image_def)
  have t: "vda_pts_from_dictionary (Some (vda_dictionary_with_pts 5)) = 5"
    by (simp add: vda_pts_from_dictionary_def vda_dictionary_with_pts_def)
  show ?thesis
    using s p equal_timestamps_keep_arrival_order [OF s p, of "Some (vda_dictionary_with_pts 5)" 0 0]
    by (simp add: t Let_def ordered_session_def decoded_frame_def signed_pts_def)
qed

text \<open>
  C3. On a queue in timestamp order, \<open>ff_vda_queue_pop\<close> unlinks the head and
  returns it, and no record of the queue has a smaller timestamp. On an empty queue it
  returns \<open>NULL\<close> and leaves everything as it was: no call is made, so the mutex
  is not taken.
\<close>

theorem pop_returns_head_with_least_timestamp:
  assumes "sorted (map signed_pts (queue (vda_ctx m)))"
  shows "(queue (vda_ctx m) = [] \<longrightarrow> ff_vda_queue_pop m = (None, m)) \<and>
         (\<forall>top_frame rest. queue (vda_ctx m) = top_frame # rest \<longrightarrow>
            (\<exists>m'. ff_vda_queue_pop m = (Some top_frame, m') \<and>
                  queue (vda_ctx m') = rest \<and>
                  (\<forall>g \<in> set (queue (vda_ctx m)). signed_pts top_frame \<le> signed_pts g)))"
  using assms by (auto simp: ff_vda_queue_pop_def platform_def set_queue_def)

theorem pop_returns_head_with_least_timestamp_witness:
  "sorted (map signed_pts (queue (vda_ctx ordered_session))) \<and>
   ff_vda_queue_pop example_session = (None, example_session) \<and>
   (\<exists>m'. ff_vda_queue_pop ordered_session = (Some (decoded_frame example_platform (3, 1)), m') \<and>
      queue (vda_ctx m') = [decoded_frame example_platform (5, 2), decoded_frame example_platform (7, 3)] \<and>
      (\<forall>g \<in> set (queue (vda_ctx ordered_session)). 3 \<le> signed_pts g))"
proof -
  have s: "sorted (map signed_pts (queue (vda_ctx ordered_session)))"
    by (simp add: ordered_session_def decoded_frame_def signed_pts_def)
  have e: "sorted (map signed_pts (queue (vda_ctx example_session)))"
    by (simp add: example_session_def)
  have q: "queue (vda_ctx ordered_session) =
      decoded_frame example_platform (3, 1) #
      [decoded_frame example_platform (5, 2), decoded_frame example_platform (7, 3)]"
    by (simp add: ordered_session_def)
  have t: "signed_pts (decoded_frame example_platform (3, 1)) = 3"
    by (simp add: decoded_frame_def signed_pts_def)
  from pop_returns_head_with_least_timestamp [OF e]
  have "ff_vda_queue_pop example_session = (None, example_session)"
    by (simp add: example_session_def)
  moreover from pop_returns_head_with_least_timestamp [OF s] q
  have "\<exists>m'. ff_vda_queue_pop ordered_session = (Some (decoded_frame example_platform (3, 1)), m') \<and>
      queue (vda_ctx m') = [decoded_frame example_platform (5, 2), decoded_frame example_platform (7, 3)] \<and>
      (\<forall>g \<in> set (queue (vda_ctx ordered_session)). signed_pts (decoded_frame example_platform (3, 1)) \<le> signed_pts g)"
    by blast
  ultimately show ?thesis
    using s by (simp only: t) 
qed

subsection \<open>Delivered frames are sorted stably\<close>

lemma callback_frame_decoded:
  "\<exists>m'. vda_decoder_callback P True m (Some (vda_dictionary_with_pts t)) status infoFlags
            (Some (decoded_image P b)) = Inr m' \<and>
         queue (vda_ctx m') = link_frame (decoded_frame P (t, b)) (queue (vda_ctx m))"
proof -
  have "pixel_format_type (decoded_image P b) = kCVPixelFormatType_422YpCbCr8 P"
    by (simp add: decoded_image_def)
  from callback_links [OF this, of m "Some (vda_dictionary_with_pts t)" status infoFlags]
  show ?thesis
    by (auto simp: decoded_frame_def vda_pts_from_dictionary_def vda_dictionary_with_pts_def)
qed

lemma run_frames_decoded:
  "\<exists>m'. run_calls P (map (frame_decoded P) xs) m = Inr m' \<and>
         queue (vda_ctx m') =
           foldl (\<lambda>q f. link_frame f q) (queue (vda_ctx m)) (map (decoded_frame P) xs)"
proof (induction xs arbitrary: m)
  case Nil
  show ?case by simp
next
  case (Cons x xs)
  obtain t b where x: "x = (t, b)" by (cases x)
  from callback_frame_decoded [of P m t "kVDADecoderNoErr P" 0 b]
  obtain m1 where m1: "vda_decoder_callback P True m (Some (vda_dictionary_with_pts t))
            (kVDADecoderNoErr P) 0 (Some (decoded_image P b)) = Inr m1"
    and q1: "queue (vda_ctx m1) = link_frame (decoded_frame P (t, b)) (queue (vda_ctx m))"
    by blast
  from Cons.IH [of m1] m1 q1 show ?case
    by (simp add: x frame_decoded_def)
qed

lemma sorted_links:
  "sorted (map signed_pts q) \<Longrightarrow> sorted (map signed_pts (foldl (\<lambda>q f. link_frame f q) q fs))"
  by (induction fs arbitrary: q) (simp_all add: sorted_link_frame)

lemma mset_links: "mset (foldl (\<lambda>q f. link_frame f q) q fs) = mset q + mset fs"
  by (induction fs arbitrary: q) (simp_all add: mset_link_frame)

lemma filter_links:
  "sorted (map signed_pts q) \<Longrightarrow>
   filter (\<lambda>g. signed_pts g = k) (foldl (\<lambda>q f. link_frame f q) q fs) =
   filter (\<lambda>g. signed_pts g = k) q @ filter (\<lambda>g. signed_pts g = k) fs"
  by (induction fs arbitrary: q) (simp_all add: sorted_link_frame filter_link_frame)

lemma links_stable_sort: "foldl (\<lambda>q f. link_frame f q) [] fs = sort_key signed_pts fs"
proof (rule sym, rule properties_for_sort_key)
  show "mset (foldl (\<lambda>q f. link_frame f q) [] fs) = mset fs"
    by (simp add: mset_links)
  show "sorted (map signed_pts (foldl (\<lambda>q f. link_frame f q) [] fs))"
    by (simp add: sorted_links)
  fix k
  show "filter (\<lambda>g. signed_pts k = signed_pts g) (foldl (\<lambda>q f. link_frame f q) [] fs) =
        filter (\<lambda>g. signed_pts k = signed_pts g) fs"
    using filter_links [of "[]" "signed_pts k" fs] by (simp add: eq_commute)
qed


lemma pts_decoded_frames: "map pts (map (decoded_frame P) xs) = map fst xs"
  by (simp add: decoded_frame_def)

lemma distinct_signed_pts:
  "distinct (map pts fs) \<Longrightarrow> distinct (map signed_pts fs)"
  by (auto simp: distinct_map inj_on_def signed_pts_eq_iff)

text \<open>
  C4. Start from an empty queue and let the callback deliver N frames whose timestamps
  are pairwise distinct. Popping until \<open>NULL\<close> then returns exactly N records: the
  delivered records, each once, their timestamps being the delivered timestamps, in
  strictly increasing order. This holds for every N, 100 and more included.
\<close>

theorem no_frame_lost_or_duplicated:
  assumes "queue (vda_ctx m) = []"
    and "distinct (map fst xs)"
  shows "\<exists>m'. run_calls P (map (frame_decoded P) xs) m = Inr m' \<and>
           length (pop_until_empty m') = length xs \<and>
           mset (pop_until_empty m') = mset (map (decoded_frame P) xs) \<and>
           set (map pts (pop_until_empty m')) = set (map fst xs) \<and>
           sorted_wrt (<) (map signed_pts (pop_until_empty m')) \<and>
           pop_until_empty m' = sort_key signed_pts (map (decoded_frame P) xs)"
proof -
  define fs where "fs = map (decoded_frame P) xs"
  from run_frames_decoded [of P xs m] assms(1)
  obtain m' where m': "run_calls P (map (frame_decoded P) xs) m = Inr m'"
    and q': "queue (vda_ctx m') = foldl (\<lambda>q f. link_frame f q) [] fs"
    unfolding fs_def by auto
  have out: "pop_until_empty m' = sort_key signed_pts fs"
    by (simp add: pop_until_empty_eq q' links_stable_sort)
  have l: "length (pop_until_empty m') = length xs"
    by (simp add: out fs_def)
  have "set (pop_until_empty m') = set fs"
    by (simp only: out set_sort)
  then have "set (map pts (pop_until_empty m')) = set (map pts fs)"
    by (simp only: set_map)
  then have s: "set (map pts (pop_until_empty m')) = set (map fst xs)"
    by (simp only: fs_def pts_decoded_frames)
  have "distinct (map pts fs)"
    using assms(2) by (simp only: fs_def pts_decoded_frames)
  then have "distinct (map signed_pts fs)"
    by (rule distinct_signed_pts)
  moreover have "mset (map signed_pts (pop_until_empty m')) = mset (map signed_pts fs)"
    by (simp add: out)
  ultimately have "distinct (map signed_pts (pop_until_empty m'))"
    using mset_eq_imp_distinct_iff by blast
  moreover have "sorted (map signed_pts (pop_until_empty m'))"
    by (simp add: out)
  ultimately have "sorted_wrt (<) (map signed_pts (pop_until_empty m'))"
    by (simp add: strict_sorted_iff)
  moreover have "mset (pop_until_empty m') = mset fs"
    by (simp add: out)
  ultimately show ?thesis
    using m' l s out unfolding fs_def by blast
qed

theorem no_frame_lost_or_duplicated_witness:
  "queue (vda_ctx example_session) = [] \<and>
   distinct (map fst [(100, 1), (50, 2), (75, 3 :: nat)] :: 64 word list) \<and>
   (\<exists>m'. run_calls example_platform
            (map (frame_decoded example_platform) [(100, 1), (50, 2), (75, 3)]) example_session = Inr m' \<and>
      pop_until_empty m' =
        [decoded_frame example_platform (50, 2), decoded_frame example_platform (75, 3),
         decoded_frame example_platform (100, 1)])"
proof -
  have e: "queue (vda_ctx example_session) = []"
    by (simp add: example_session_def)
  have d: "distinct (map fst [(100, 1), (50, 2), (75, 3 :: nat)] :: 64 word list)"
    by simp
  have "sort_key signed_pts (map (decoded_frame example_platform) [(100, 1), (50, 2), (75, 3)]) =
        [decoded_frame example_platform (50, 2), decoded_frame example_platform (75, 3),
         decoded_frame example_platform (100, 1)]"
    by (simp add: decoded_frame_def signed_pts_def)
  with no_frame_lost_or_duplicated [OF e d, of example_platform] e d show ?thesis
    by auto
qed

subsection \<open>Draining and teardown\<close>

lemma clear_queue_loop_eq:
  "clear_queue_loop m =
     m\<lparr>vda_ctx := (vda_ctx m)\<lparr>queue := []\<rparr>,
       calls := calls m @ map (\<lambda>f. CVPixelBufferRelease (cv_buffer f)) (queue (vda_ctx m))\<rparr>"
proof (induction "queue (vda_ctx m)" arbitrary: m)
  case Nil
  then show ?case
    by (subst clear_queue_loop.simps) (simp flip: Nil)
next
  case (Cons f q)
  let ?m1 = "ff_vda_release_vda_frame (Some f) (set_queue q m)"
  have q1: "q = queue (vda_ctx ?m1)"
    by (simp add: ff_vda_release_vda_frame_def platform_def set_queue_def)
  have "clear_queue_loop m = clear_queue_loop ?m1"
    by (subst clear_queue_loop.simps) (simp flip: Cons(2))
  also note Cons(1) [OF q1]
  finally show ?case
    by (simp add: ff_vda_release_vda_frame_def platform_def set_queue_def flip: Cons(2))
qed

lemma vda_clear_queue_eq:
  "vda_clear_queue m =
     m\<lparr>vda_ctx := (vda_ctx m)\<lparr>queue := []\<rparr>,
       calls := calls m @
         Pthread_mutex_lock (queue_mutex (vda_ctx m)) #
         map (\<lambda>f. CVPixelBufferRelease (cv_buffer f)) (queue (vda_ctx m)) @
         [Pthread_mutex_unlock (queue_mutex (vda_ctx m))]\<rparr>"
  by (simp add: vda_clear_queue_def clear_queue_loop_eq platform_def)

text \<open>
  C8. \<open>vda_clear_queue\<close> leaves the queue empty. Between taking and releasing the
  mutex it calls \<open>CVPixelBufferRelease\<close> once for the image of each record that was
  in the queue, head first, and makes no other call to pthread, CoreVideo or the
  decoder; a queue of K records gives K releases.
\<close>

theorem clear_queue_releases_each_record_once:
  "queue (vda_ctx (vda_clear_queue m)) = [] \<and>
   calls (vda_clear_queue m) =
     calls m @
     [Pthread_mutex_lock (queue_mutex (vda_ctx m))] @
     map (\<lambda>f. CVPixelBufferRelease (cv_buffer f)) (queue (vda_ctx m)) @
     [Pthread_mutex_unlock (queue_mutex (vda_ctx m))] \<and>
   length (filter (\<lambda>c. \<exists>b. c = CVPixelBufferRelease b)
             (drop (length (calls m)) (calls (vda_clear_queue m)))) =
     length (queue (vda_ctx m))"
  by (simp add: vda_clear_queue_eq)


subsection \<open>What the callback refuses, and what it cannot survive\<close>

text \<open>
  C5, as the claim has it, fails. The session was configured with the format
  \<open>avc1\<close>; an image of the pixel format \<open>2vuy\<close> does not match that format, and the
  callback queues it all the same.
\<close>

theorem image_differing_from_session_format_is_queued:
  "pixel_format_type (decoded_image example_platform 1) \<noteq> format (vda_ctx example_session) \<and>
   vda_decoder_callback example_platform True example_session None 0 0
       (Some (decoded_image example_platform 1)) =
     Inr \<lparr>vda_ctx = \<lparr>decoder = Some 1,
                      queue = [\<lparr>cv_buffer = Some (decoded_image example_platform 1), pts = 0\<rparr>],
                      queue_mutex = Some 2, width = 640, height = 480, format = 0x61766331\<rparr>,
           calls = [CVPixelBufferRetain (decoded_image example_platform 1),
                    Pthread_mutex_lock (Some 2), Pthread_mutex_unlock (Some 2)]\<rparr> \<and>
   vda_decoder_callback example_platform True example_session None 0 0
       (Some (decoded_image example_platform 1)) \<noteq> Inr example_session"
  by (simp add: vda_decoder_callback_def example_session_def example_platform_def
      decoded_image_def vda_pts_from_dictionary_def platform_def set_queue_def link_frame_def)

text \<open>
  C5, amended. The callback returns at once, with nothing changed, when the image is
  absent or when its pixel format is not the constant \<open>kCVPixelFormatType_422YpCbCr8\<close>;
  the format stored in the session is not looked at. On an empty queue a pop after
  such a callback still returns \<open>NULL\<close>.
\<close>

theorem callback_ignores_absent_or_other_image:
  assumes "image_buffer = None \<or>
           (\<exists>buf. image_buffer = Some buf \<and>
                  pixel_format_type buf \<noteq> kCVPixelFormatType_422YpCbCr8 P)"
  shows "vda_decoder_callback P allocated m user_info status infoFlags image_buffer = Inr m \<and>
         (queue (vda_ctx m) = [] \<longrightarrow> ff_vda_queue_pop m = (None, m))"
  using assms by (auto simp: vda_decoder_callback_def ff_vda_queue_pop_def)

theorem callback_ignores_absent_or_other_image_witness:
  "vda_decoder_callback example_platform True example_session
       (Some (vda_dictionary_with_pts 100)) 0 0 None = Inr example_session \<and>
   pixel_format_type avc1_image = format (vda_ctx example_session) \<and>
   pixel_format_type avc1_image \<noteq> kCVPixelFormatType_422YpCbCr8 example_platform \<and>
   vda_decoder_callback example_platform True example_session
       (Some (vda_dictionary_with_pts 100)) 0 0 (Some avc1_image) = Inr example_session \<and>
   ff_vda_queue_pop example_session = (None, example_session)"
proof -
  have f: "pixel_format_type avc1_image \<noteq> kCVPixelFormatType_422YpCbCr8 example_platform"
    by (simp add: avc1_image_def example_platform_def)
  have e: "queue (vda_ctx example_session) = []"
    by (simp add: example_session_def)
  have "pixel_format_type avc1_image = format (vda_ctx example_session)"
    by (simp add: avc1_image_def example_session_def)
  moreover from callback_ignores_absent_or_other_image
    [of None example_platform True example_session "Some (vda_dictionary_with_pts 100)" 0 0]
  have "vda_decoder_callback example_platform True example_session
       (Some (vda_dictionary_with_pts 100)) 0 0 None = Inr example_session"
    by simp
  moreover from f callback_ignores_absent_or_other_image
    [of "Some avc1_image" example_platform True example_session "Some (vda_dictionary_with_pts 100)" 0 0]
  have "vda_decoder_callback example_platform True example_session
       (Some (vda_dictionary_with_pts 100)) 0 0 (Some avc1_image) = Inr example_session \<and>
     (queue (vda_ctx example_session) = [] \<longrightarrow>
        ff_vda_queue_pop example_session = (None, example_session))"
    by simp
  ultimately show ?thesis
    using f e by simp
qed

text \<open>
  C9 fails on the code. With an image that passes both checks and \<open>av_mallocz\<close>
  returning \<open>NULL\<close>, the callback does not return: it writes \<open>next_frame\<close> through
  the \<open>NULL\<close> pointer.
\<close>

theorem callback_writes_through_null_when_allocation_fails:
  "vda_decoder_callback example_platform False example_session
       (Some (vda_dictionary_with_pts 100)) 0 0 (Some (decoded_image example_platform 1)) =
     Inl Null_Pointer_Write"
  by (simp add: vda_decoder_callback_def decoded_image_def)

text \<open>
  C10. A callback with an image of the accepted format whose \<open>user_info\<close> is
  \<open>NULL\<close>, or has no value under the timestamp key, links a record with timestamp 0
  into the queue, provided the record's allocation succeeds: the queue has one record
  more, and the new record holds the image.
\<close>

theorem frame_without_pts_is_queued_at_zero:
  assumes "user_info = None \<or> (\<exists>d. user_info = Some d \<and> d FF_VDA_DECODER_PTS_KEY = None)"
    and "pixel_format_type buf = kCVPixelFormatType_422YpCbCr8 P"
  shows "\<exists>m'. vda_decoder_callback P True m user_info status infoFlags (Some buf) = Inr m' \<and>
           queue (vda_ctx m') = link_frame \<lparr>cv_buffer = Some buf, pts = 0\<rparr> (queue (vda_ctx m)) \<and>
           \<lparr>cv_buffer = Some buf, pts = 0\<rparr> \<in> set (queue (vda_ctx m')) \<and>
           length (queue (vda_ctx m')) = Suc (length (queue (vda_ctx m)))"
proof -
  from assms(1) have "vda_pts_from_dictionary user_info = 0"
    by (auto simp: vda_pts_from_dictionary_def)
  with callback_links [OF assms(2), of m user_info status infoFlags] show ?thesis
    by (auto simp: set_link_frame length_link_frame)
qed


theorem frame_without_pts_is_queued_at_zero_witness:
  "[''OTHER_KEY'' \<mapsto> (7 :: 64 word)] FF_VDA_DECODER_PTS_KEY = None \<and>
   pixel_format_type (decoded_image example_platform 4) =
     kCVPixelFormatType_422YpCbCr8 example_platform \<and>
   (\<exists>m'. vda_decoder_callback example_platform True ordered_session None 0 0
            (Some (decoded_image example_platform 4)) = Inr m' \<and>
      queue (vda_ctx m') =
        [decoded_frame example_platform (0, 4), decoded_frame example_platform (3, 1),
         decoded_frame example_platform (5, 2), decoded_frame example_platform (7, 3)]) \<and>
   (\<exists>m'. vda_decoder_callback example_platform True ordered_session
            (Some [''OTHER_KEY'' \<mapsto> 7]) 0 0
            (Some (decoded_image example_platform 4)) = Inr m' \<and>
      queue (vda_ctx m') =
        [decoded_frame example_platform (0, 4), decoded_frame example_platform (3, 1),
         decoded_frame example_platform (5, 2), decoded_frame example_platform (7, 3)])"
proof -
  have k: "[''OTHER_KEY'' \<mapsto> (7 :: 64 word)] FF_VDA_DECODER_PTS_KEY = None"
    by (simp add: FF_VDA_DECODER_PTS_KEY_def)
  have p: "pixel_format_type (decoded_image example_platform 4) =
     kCVPixelFormatType_422YpCbCr8 example_platform"
    by (simp add: decoded_image_def)
  have l: "link_frame \<lparr>cv_buffer = Some (decoded_image example_platform 4), pts = 0\<rparr>
             (queue (vda_ctx ordered_session)) =
        [decoded_frame example_platform (0, 4), decoded_frame example_platform (3, 1),
         decoded_frame example_platform (5, 2), decoded_frame example_platform (7, 3)]"
    by (simp add: ordered_session_def decoded_frame_def link_frame_def signed_pts_def)
  from frame_without_pts_is_queued_at_zero [OF _ p, of None ordered_session 0 0]
  have "\<exists>m'. vda_decoder_callback example_platform True ordered_session None 0 0
            (Some (decoded_image example_platform 4)) = Inr m' \<and>
      queue (vda_ctx m') =
        [decoded_frame example_platform (0, 4), decoded_frame example_platform (3, 1),
         decoded_frame example_platform (5, 2), decoded_frame example_platform (7, 3)]"
    unfolding l by auto
  moreover from k frame_without_pts_is_queued_at_zero
    [OF _ p, of "Some [''OTHER_KEY'' \<mapsto> 7]" ordered_session 0 0]
  have "\<exists>m'. vda_decoder_callback example_platform True ordered_session
            (Some [''OTHER_KEY'' \<mapsto> 7]) 0 0
            (Some (decoded_image example_platform 4)) = Inr m' \<and>
      queue (vda_ctx m') =
        [decoded_frame example_platform (0, 4), decoded_frame example_platform (3, 1),
         decoded_frame example_platform (5, 2), decoded_frame example_platform (7, 3)]"
    unfolding l by auto
  ultimately show ?thesis
    using k p by blast
qed

subsection \<open>Destroying the decoder and submitting a frame\<close>

lemma ff_vda_destroy_decoder_with_mutex:
  assumes "queue_mutex (vda_ctx m) = Some p"
  shows "ff_vda_destroy_decoder P destroy_status m =
     (let status = (case decoder (vda_ctx m) of None \<Rightarrow> kVDADecoderNoErr P | Some d \<Rightarrow> destroy_status)
      in Inr (if kVDADecoderNoErr P \<noteq> status then status else 0,
          m\<lparr>vda_ctx := (vda_ctx m)\<lparr>queue := [], queue_mutex := None\<rparr>,
            calls := calls m @
              (case decoder (vda_ctx m) of None \<Rightarrow> [] | Some d \<Rightarrow> [VDADecoderDestroy d]) @
              [Pthread_mutex_lock (Some p)] @
              map (\<lambda>f. CVPixelBufferRelease (cv_buffer f)) (queue (vda_ctx m)) @
              [Pthread_mutex_unlock (Some p), Pthread_mutex_destroy (Some p)]\<rparr>))"
  using assms
  by (cases "decoder (vda_ctx m)")
     (auto simp: ff_vda_destroy_decoder_def vda_clear_queue_eq platform_def set_queue_mutex_def Let_def)

lemma ff_vda_destroy_decoder_without_mutex:
  "queue_mutex (vda_ctx m) = None \<Longrightarrow>
   ff_vda_destroy_decoder P destroy_status m = Inl Null_Mutex_Lock"
  by (cases "decoder (vda_ctx m)")
     (auto simp: ff_vda_destroy_decoder_def platform_def Let_def)

text \<open>
  C6 fails on the code. On a context without decoder handle and without mutex,
  \<open>ff_vda_destroy_decoder\<close> skips \<open>VDADecoderDestroy\<close> and then calls
  \<open>vda_clear_queue\<close>, which locks the \<open>NULL\<close> mutex before the function's own
  test of \<open>queue_mutex\<close> is reached: the call does not return, nothing is drained and
  no status comes back. Where the mutex exists the function does what the claim says
  (\<open>ff_vda_destroy_decoder_with_mutex\<close>).
\<close>

theorem destroy_locks_null_mutex_before_testing_it:
  "decoder (vda_ctx uncreated_session) = None \<and>
   queue_mutex (vda_ctx uncreated_session) = None \<and>
   ff_vda_destroy_decoder example_platform 0 uncreated_session = Inl Null_Mutex_Lock"
  by (simp add: ff_vda_destroy_decoder_def uncreated_session_def)

text \<open>
  C7. Where the platform's \<open>kVDADecoderNoErr\<close> is 0, \<open>ff_vda_decoder_decode\<close>
  returns a status other than 0 exactly when \<open>VDADecoderDecode\<close> returned a status
  other than \<open>kVDADecoderNoErr\<close>, and then it is that status. Either way the session,
  the queue included, is as before; the one call made is \<open>VDADecoderDecode\<close> with
  the bitstream and a dictionary holding the timestamp.
\<close>

theorem decode_reports_failure_and_keeps_queue:
  assumes "kVDADecoderNoErr P = 0"
  shows "(fst (ff_vda_decoder_decode P decode_status m bitstream frame_pts) \<noteq> 0 \<longleftrightarrow>
            decode_status \<noteq> kVDADecoderNoErr P) \<and>
         (decode_status \<noteq> kVDADecoderNoErr P \<longrightarrow>
            fst (ff_vda_decoder_decode P decode_status m bitstream frame_pts) = decode_status) \<and>
         (decode_status = kVDADecoderNoErr P \<longrightarrow>
            fst (ff_vda_decoder_decode P decode_status m bitstream frame_pts) = 0) \<and>
         vda_ctx (snd (ff_vda_decoder_decode P decode_status m bitstream frame_pts)) = vda_ctx m \<and>
         calls (snd (ff_vda_decoder_decode P decode_status m bitstream frame_pts)) =
           calls m @ [VDADecoderDecode (decoder (vda_ctx m)) bitstream
                        (vda_dictionary_with_pts frame_pts)]"
  using assms by (auto simp: ff_vda_decoder_decode_def platform_def Let_def)

theorem decode_reports_failure_and_keeps_queue_witness:
  "kVDADecoderNoErr example_platform = 0 \<and>
   fst (ff_vda_decoder_decode example_platform (- 12911) ordered_session [0, 0, 1] 100) = - 12911 \<and>
   vda_ctx (snd (ff_vda_decoder_decode example_platform (- 12911) ordered_session [0, 0, 1] 100)) =
     vda_ctx ordered_session \<and>
   fst (ff_vda_decoder_decode example_platform 0 ordered_session [0, 0, 1] 100) = 0 \<and>
   vda_ctx (snd (ff_vda_decoder_decode example_platform 0 ordered_session [0, 0, 1] 100)) =
     vda_ctx ordered_session"
proof -
  have z: "kVDADecoderNoErr example_platform = 0"
    by (simp add: example_platform_def)
  show ?thesis
    using z
      decode_reports_failure_and_keeps_queue [OF z, of "- 12911" ordered_session "[0, 0, 1]" 100]
      decode_reports_failure_and_keeps_queue [OF z, of 0 ordered_session "[0, 0, 1]" 100]
    by simp
qed

end
